theory Spec2Isabelle
  imports Main "HOL-Library.Sublist" "HOL-Library.AList"
begin

section \<open>Values of the JavaScript runtime\<close>

text \<open>
  The configuration file holds JSON text. A parsed JSON value is a \<open>json\<close>; a JavaScript
  value that may also be \<^verbatim>\<open>undefined\<close> is a \<open>json option\<close>, with \<open>None\<close> for
  \<^verbatim>\<open>undefined\<close>. Numbers are kept as integers: the program only tests them for
  truthiness and prints them.
\<close>

datatype json =
    JNull
  | JBool bool
  | JNum int
  | JStr string
  | JArr "json list"
  | JObj "(string \<times> json) list"

type_synonym jsval = "json option"

text \<open>An object in memory: its own properties in order, a property may hold \<^verbatim>\<open>undefined\<close>.\<close>

type_synonym jsobject = "(string \<times> jsval) list"

text \<open>
  An \<^verbatim>\<open>Error\<close> object as the program reads it: \<^verbatim>\<open>error.code\<close> (absent, a number as in
  HTTP status 401, or a string as in \<^verbatim>\<open>'ENOENT'\<close>) and \<^verbatim>\<open>error.message\<close>.
\<close>

datatype err_code = NoCode | NumCode int | StrCode string

record js_error =
  err_code :: err_code
  err_message :: string

definition Error :: "string \<Rightarrow> js_error" where
  "Error msg = \<lparr>err_code = NoCode, err_message = msg\<rparr>"

text \<open>Truthiness, as \<^verbatim>\<open>!x\<close>, \<^verbatim>\<open>x ? a : b\<close> and \<^verbatim>\<open>x || y\<close> test it.\<close>

fun truthy :: "jsval \<Rightarrow> bool" where
  "truthy None = False"
| "truthy (Some JNull) = False"
| "truthy (Some (JBool b)) = b"
| "truthy (Some (JNum n)) = (n \<noteq> 0)"
| "truthy (Some (JStr s)) = (s \<noteq> [])"
| "truthy (Some (JArr xs)) = True"
| "truthy (Some (JObj ps)) = True"

text \<open>Decimal rendering of numbers, as template literals and array indices need it.\<close>

definition digit :: "nat \<Rightarrow> char" where
  "digit k = char_of (k + 48)"

fun decimal :: "nat \<Rightarrow> string" where
  "decimal n = (if n < 10 then [digit n] else decimal (n div 10) @ [digit (n mod 10)])"

declare decimal.simps [simp del]

definition decimal_int :: "int \<Rightarrow> string" where
  "decimal_int i = (if i < 0 then CHR ''-'' # decimal (nat (- i)) else decimal (nat i))"

fun join :: "string \<Rightarrow> string list \<Rightarrow> string" where
  "join sep [] = []"
| "join sep [x] = x"
| "join sep (x # y # ys) = x @ sep @ join sep (y # ys)"

text \<open>
  \<^verbatim>\<open>`${v}`\<close>: the string a template literal puts for a value. An array prints its elements
  separated by commas, with nothing for \<^verbatim>\<open>null\<close>; an object prints \<^verbatim>\<open>[object Object]\<close>.
\<close>

fun to_string :: "json \<Rightarrow> string"
  and elems_to_string :: "json list \<Rightarrow> string list" where
  "to_string JNull = ''null''"
| "to_string (JBool b) = (if b then ''true'' else ''false'')"
| "to_string (JNum n) = decimal_int n"
| "to_string (JStr s) = s"
| "to_string (JArr xs) = join '','' (elems_to_string xs)"
| "to_string (JObj ps) = ''[object Object]''"
| "elems_to_string [] = []"
| "elems_to_string (x # xs) = (if x = JNull then [] else to_string x) # elems_to_string xs"

definition template :: "jsval \<Rightarrow> string" where
  "template v = (case v of None \<Rightarrow> ''undefined'' | Some j \<Rightarrow> to_string j)"

text \<open>\<^verbatim>\<open>s.includes(sub)\<close>: \<open>sub\<close> occurs in \<open>s\<close> as a contiguous run of characters.\<close>

fun includes_str :: "string \<Rightarrow> string \<Rightarrow> bool" where
  "includes_str [] sub = (sub = [])"
| "includes_str (c # s) sub = (prefix sub (c # s) \<or> includes_str s sub)"

section \<open>Config Store\<close>

text \<open>
  The file \<^verbatim>\<open>config.json\<close> under \<^verbatim>\<open>CONFIG_DIR\<close>. Its text is represented by what reading
  and \<^verbatim>\<open>JSON.parse\<close> make of it: no file, a file that \<^verbatim>\<open>readFileSync\<close> cannot read, text
  that \<^verbatim>\<open>JSON.parse\<close> rejects, or text that parses to a JSON value (any value: nothing
  checks that it is an object with the three fields).
\<close>

datatype config_file = Missing | Unreadable | Unparseable | Parses json

record disk =
  dir_exists :: bool
  cfg_file :: config_file

text \<open>
  What the surroundings answer during one tool call: whether creating the directory and
  writing the file fail, the string \<^verbatim>\<open>Math.random().toString(36)\<close>, the two \<^verbatim>\<open>gcloud\<close>
  child processes, the file system under \<^verbatim>\<open>sourcePath\<close>, and the object store.
\<close>

datatype fsnode = RegularFile | Directory "(string \<times> fsnode) list" | SpecialFile

datatype login_result = SpawnError js_error | Closed "int option"

text \<open>
  \<^verbatim>\<open>writeFileSync\<close> opens the file with flag \<^verbatim>\<open>'w'\<close>, which creates it or empties it, and then
  writes the text. It can throw at the open, which leaves the file as it was, or after
  the open, which leaves an empty or cut-off text behind.
\<close>

datatype write_failure = OpenFails js_error | WriteFails js_error

definition failure_error :: "write_failure \<Rightarrow> js_error" where
  "failure_error f = (case f of OpenFails err \<Rightarrow> err | WriteFails err \<Rightarrow> err)"

record env =
  mkdir_fault :: "js_error option"
  write_fault :: "write_failure option"
  random36 :: string
  identity_exit :: "int option"
  identity_stdout :: string
  login_flow :: login_result
  statSync :: "string \<Rightarrow> js_error + fsnode"
  mime_lookup :: "string \<Rightarrow> string option"
  upload_fault :: "string \<Rightarrow> string \<Rightarrow> js_error option"
  makePublic_fault :: "string \<Rightarrow> js_error option"

text \<open>
  \<^verbatim>\<open>ConfigManager.load\<close>: the \<^verbatim>\<open>try\<close> block returns \<^verbatim>\<open>JSON.parse(data)\<close> as it is when the
  file exists, can be read and parses; every other path ends in \<^verbatim>\<open>return {}\<close>.
\<close>

definition load :: "disk \<Rightarrow> json" where
  "load d =
     (case cfg_file d of
        Missing \<Rightarrow> JObj []
      | Unreadable \<Rightarrow> JObj []
      | Unparseable \<Rightarrow> JObj []
      | Parses v \<Rightarrow> v)"

text \<open>
  \<^verbatim>\<open>x.name\<close> for a value that came from \<^verbatim>\<open>load\<close> and a name that is no built-in property:
  a \<^verbatim>\<open>TypeError\<close> on \<^verbatim>\<open>null\<close>, the property's value on an object, \<^verbatim>\<open>undefined\<close> otherwise.
\<close>

definition null_property_error :: "string \<Rightarrow> js_error" where
  "null_property_error name =
     Error (''Cannot read properties of null (reading '' @ [CHR 0x27] @ name @ [CHR 0x27] @ '')'')"

definition get_property :: "json \<Rightarrow> string \<Rightarrow> js_error + jsval" where
  "get_property v name =
     (case v of
        JNull \<Rightarrow> Inl (null_property_error name)
      | JObj ps \<Rightarrow> Inr (map_of ps name)
      | _ \<Rightarrow> Inr None)"

definition getBucket :: "disk \<Rightarrow> js_error + jsval" where
  "getBucket d = get_property (load d) ''bucketName''"

definition getProject :: "disk \<Rightarrow> js_error + jsval" where
  "getProject d = get_property (load d) ''projectId''"

definition getSubfolder :: "disk \<Rightarrow> js_error + jsval" where
  "getSubfolder d = get_property (load d) ''subfolder''"

text \<open>
  \<^verbatim>\<open>{ ...existing, ...config }\<close>. Spreading a value copies its own enumerable properties:
  those of an object, the indexed elements of an array, the indexed characters of a
  string, nothing for \<^verbatim>\<open>null\<close>, a boolean or a number. A later property replaces an earlier
  one of the same name where it stands, also when the later value is \<^verbatim>\<open>undefined\<close>.
\<close>

fun indexed :: "nat \<Rightarrow> 'a list \<Rightarrow> (string \<times> 'a) list" where
  "indexed i [] = []"
| "indexed i (x # xs) = (decimal i, x) # indexed (Suc i) xs"

fun own_properties :: "json \<Rightarrow> jsobject" where
  "own_properties (JObj ps) = map (\<lambda>(k, v). (k, Some v)) ps"
| "own_properties (JArr xs) = indexed 0 (map Some xs)"
| "own_properties (JStr s) = indexed 0 (map (\<lambda>c. Some (JStr [c])) s)"
| "own_properties _ = []"

definition spread :: "jsobject \<Rightarrow> jsobject \<Rightarrow> jsobject" where
  "spread base over = foldl (\<lambda>acc (k, v). AList.update k v acc) base over"

text \<open>
  \<^verbatim>\<open>JSON.stringify(newConfig, null, 2)\<close> followed by a later \<^verbatim>\<open>JSON.parse\<close>: a property
  whose value is \<^verbatim>\<open>undefined\<close> is left out of the text.
\<close>

definition stringify :: "jsobject \<Rightarrow> json" where
  "stringify obj = JObj (List.map_filter (\<lambda>(k, v). map_option (Pair k) v) obj)"

text \<open>
  \<^verbatim>\<open>ConfigManager.save\<close>: creates the directory when it is absent, merges the argument
  over \<^verbatim>\<open>load()\<close>, writes the result; an error of \<^verbatim>\<open>mkdirSync\<close> or \<^verbatim>\<open>writeFileSync\<close> is
  logged and thrown again. The result is the thrown error, if any, and the disk afterwards.
  A write that throws after the open has emptied the file: what is left is the text of
  an object cut short, which \<^verbatim>\<open>JSON.parse\<close> rejects.
\<close>

definition save :: "env \<Rightarrow> disk \<Rightarrow> jsobject \<Rightarrow> js_error option \<times> disk" where
  "save e d config =
     (if \<not> dir_exists d \<and> mkdir_fault e \<noteq> None then (mkdir_fault e, d)
      else
        let d1 = d\<lparr>dir_exists := True\<rparr>;
            existing = load d1;
            newConfig = spread (own_properties existing) config
        in case write_fault e of
             Some (OpenFails err) \<Rightarrow> (Some err, d1)
           | Some (WriteFails err) \<Rightarrow> (Some err, d1\<lparr>cfg_file := Unparseable\<rparr>)
           | None \<Rightarrow> (None, d1\<lparr>cfg_file := Parses (stringify newConfig)\<rparr>))"

section \<open>Upload Orchestrator and Auth-Recovery Controller\<close>

text \<open>
  What a call does to its collaborators, in order: the child processes it spawns and the
  calls it makes on the object store. Diagnostic output on \<^verbatim>\<open>stderr\<close> is not recorded.
\<close>

datatype event =
    Spawn string "string list"
  | Upload string string string
  | MakePublic string

definition sq :: string where "sq = [CHR 0x27]"
definition dq :: string where "dq = [CHR 0x22]"
definition nl :: string where "nl = [CHR 0x0A]"

text \<open>
  The functions of Node's \<^verbatim>\<open>path\<close> module, for POSIX paths on which its normalisation
  changes nothing (no \<^verbatim>\<open>.\<close> or \<^verbatim>\<open>..\<close> segment, no doubled or trailing separator).
  \<^verbatim>\<open>path.join\<close> throws a \<^verbatim>\<open>TypeError\<close> when an argument is not a string.
\<close>

definition basename :: "string \<Rightarrow> string" where
  "basename p = rev (takeWhile (\<lambda>c. c \<noteq> CHR ''/'') (rev p))"

definition path_type_error :: js_error where
  "path_type_error =
     \<lparr>err_code = StrCode ''ERR_INVALID_ARG_TYPE'',
      err_message = ''The '' @ dq @ ''path'' @ dq @ '' argument must be of type string''\<rparr>"

definition path_join :: "jsval \<Rightarrow> string \<Rightarrow> js_error + string" where
  "path_join a b =
     (case a of
        Some (JStr p) \<Rightarrow> Inr (if p = [] then b else p @ ''/'' @ b)
      | _ \<Rightarrow> Inl path_type_error)"

definition path_relative :: "string \<Rightarrow> string \<Rightarrow> string" where
  "path_relative root p =
     (if prefix (root @ ''/'') p then drop (length root + 1) p else p)"

text \<open>
  \<^verbatim>\<open>getAllFiles\<close>: the entries of a directory in listing order; a subdirectory is walked
  with the same accumulator, every other entry is appended.
\<close>

fun getAllFiles :: "string \<Rightarrow> (string \<times> fsnode) list \<Rightarrow> string list \<Rightarrow> string list" where
  "getAllFiles dirPath [] arrayOfFiles = arrayOfFiles"
| "getAllFiles dirPath ((f, Directory entries) # rest) arrayOfFiles =
     getAllFiles dirPath rest (getAllFiles (dirPath @ ''/'' @ f) entries arrayOfFiles)"
| "getAllFiles dirPath ((f, RegularFile) # rest) arrayOfFiles =
     getAllFiles dirPath rest (arrayOfFiles @ [dirPath @ ''/'' @ f])"
| "getAllFiles dirPath ((f, SpecialFile) # rest) arrayOfFiles =
     getAllFiles dirPath rest (arrayOfFiles @ [dirPath @ ''/'' @ f])"

text \<open>
  \<^verbatim>\<open>uploadFile\<close>: \<^verbatim>\<open>bucket.upload\<close> may throw. \<^verbatim>\<open>makePublic\<close> is called next; when it throws
  (\<open>makePublic_fault\<close>) the error is only logged, so the result and the calls made are the
  same either way. The bucket handle carries the name it was made with.
\<close>

definition uploadFile :: "env \<Rightarrow> jsval \<Rightarrow> string \<Rightarrow> string \<Rightarrow> (js_error + string) \<times> event list" where
  "uploadFile e bucketName filePath destination =
     (let contentType =
            (case mime_lookup e filePath of
               Some t \<Rightarrow> if t \<noteq> [] then t else ''application/octet-stream''
             | None \<Rightarrow> ''application/octet-stream'')
      in case upload_fault e filePath destination of
           Some err \<Rightarrow> (Inl err, [Upload filePath destination contentType])
         | None \<Rightarrow>
             (Inr (''https://storage.googleapis.com/'' @ template bucketName @ ''/'' @ destination),
              [Upload filePath destination contentType, MakePublic destination]))"

text \<open>The \<^verbatim>\<open>for\<close> loop of \<^verbatim>\<open>deploy\<close> over the files of a directory: it stops at the first throw.\<close>

fun deploy_files ::
  "env \<Rightarrow> jsval \<Rightarrow> jsval \<Rightarrow> string \<Rightarrow> string list \<Rightarrow> (js_error + string list) \<times> event list" where
  "deploy_files e bucketName destinationPrefix sourcePath [] = (Inr [], [])"
| "deploy_files e bucketName destinationPrefix sourcePath (f # files) =
     (case path_join destinationPrefix (path_relative sourcePath f) of
        Inl err \<Rightarrow> (Inl err, [])
      | Inr destination \<Rightarrow>
          (case uploadFile e bucketName f destination of
             (Inl err, evs) \<Rightarrow> (Inl err, evs)
           | (Inr url, evs) \<Rightarrow>
               (case deploy_files e bucketName destinationPrefix sourcePath files of
                  (Inl err, evs') \<Rightarrow> (Inl err, evs @ evs')
                | (Inr urls, evs') \<Rightarrow> (Inr (url # urls), evs @ evs'))))"

text \<open>The \<^verbatim>\<open>try\<close> block of \<^verbatim>\<open>deploy\<close>, entered once \<^verbatim>\<open>statSync\<close> has answered.\<close>

definition deploy_try ::
  "env \<Rightarrow> string \<Rightarrow> jsval \<Rightarrow> jsval \<Rightarrow> fsnode \<Rightarrow> (js_error + string list) \<times> event list" where
  "deploy_try e sourcePath bucketName destinationPrefix stats =
     (case stats of
        RegularFile \<Rightarrow>
          (case path_join destinationPrefix (basename sourcePath) of
             Inl err \<Rightarrow> (Inl err, [])
           | Inr destination \<Rightarrow>
               (case uploadFile e bucketName sourcePath destination of
                  (Inl err, evs) \<Rightarrow> (Inl err, evs)
                | (Inr url, evs) \<Rightarrow> (Inr [url], evs)))
      | Directory entries \<Rightarrow>
          deploy_files e bucketName destinationPrefix sourcePath (getAllFiles sourcePath entries [])
      | SpecialFile \<Rightarrow> (Inl (Error ''sourcePath must be a file or directory''), []))"

definition isAuthError :: "js_error \<Rightarrow> bool" where
  "isAuthError error \<longleftrightarrow>
     err_code error = NumCode 401 \<or>
     (err_message error \<noteq> [] \<and>
      (includes_str (err_message error) ''Could not load the default credentials'' \<or>
       includes_str (err_message error)
         ''Anonymous caller does not have storage.objects.create access''))"

text \<open>
  \<^verbatim>\<open>attemptAutoAuth\<close>: the promise is rejected by the child's \<^verbatim>\<open>error\<close> event or by a
  \<^verbatim>\<open>close\<close> with a code other than 0 (\<^verbatim>\<open>null\<close> when a signal ended it), resolved by a
  \<^verbatim>\<open>close\<close> with code 0.
\<close>

definition login_command :: event where
  "login_command =
     Spawn ''gcloud''
       [''auth'', ''application-default'', ''login'',
        ''--scopes=https://www.googleapis.com/auth/devstorage.full_control'']"

definition attemptAutoAuth :: "env \<Rightarrow> (js_error + unit) \<times> event list" where
  "attemptAutoAuth e =
     (case login_flow e of
        SpawnError err \<Rightarrow> (Inl err, [login_command])
      | Closed code \<Rightarrow>
          (if code = Some 0 then (Inr (), [login_command])
           else (Inl (Error (''gcloud exited with code '' @
                   (case code of None \<Rightarrow> ''null'' | Some n \<Rightarrow> decimal_int n))),
                 [login_command])))"

definition auth_missing_message :: string where
  "auth_missing_message =
     ''Authentication was missing. I have launched the '' @ dq @
     ''gcloud auth application-default login'' @ dq @
     '' command in a new window. Please complete the login process there and then try this request again.''"

text \<open>
  \<^verbatim>\<open>deploy\<close>. \<^verbatim>\<open>statSync\<close> is outside the \<^verbatim>\<open>try\<close>. In the recovery branch the \<^verbatim>\<open>throw\<close> that
  follows \<^verbatim>\<open>await this.attemptAutoAuth()\<close> stands inside the inner \<^verbatim>\<open>try\<close>, so the inner
  \<^verbatim>\<open>catch\<close> receives either the rejection or that thrown error, and throws its own.
\<close>

definition recovery_try :: "env \<Rightarrow> (js_error + unit) \<times> event list" where
  "recovery_try e =
     (case attemptAutoAuth e of
        (Inl err, evs) \<Rightarrow> (Inl err, evs)
      | (Inr u, evs) \<Rightarrow> (Inl (Error auth_missing_message), evs))"

definition deploy ::
  "env \<Rightarrow> string \<Rightarrow> jsval \<Rightarrow> jsval \<Rightarrow> (js_error + string list) \<times> event list" where
  "deploy e sourcePath bucketName destinationPrefix =
     (case statSync e sourcePath of
        Inl err \<Rightarrow> (Inl err, [])
      | Inr stats \<Rightarrow>
          (case deploy_try e sourcePath bucketName destinationPrefix stats of
             (Inr urls, evs) \<Rightarrow> (Inr urls, evs)
           | (Inl error, evs) \<Rightarrow>
               if isAuthError error then
                 (case recovery_try e of
                    (Inl authError, evs') \<Rightarrow>
                      (Inl (Error (''Authentication failed and could not launch gcloud: '' @
                              err_message authError @ ''. Original error: '' @ err_message error)),
                       evs @ evs')
                  | (Inr u, evs') \<Rightarrow> (Inl error, evs @ evs'))
               else (Inl error, evs)))"

section \<open>Tool handler\<close>

text \<open>
  A tool call: the tool's name and, when the request carries them, its arguments. Every
  argument has the type the tool's input schema declares for it: absent or a string.
\<close>

record tool_args =
  arg_sourcePath :: "string option"
  arg_bucketName :: "string option"
  arg_destinationPrefix :: "string option"
  arg_projectId :: "string option"
  arg_subfolder :: "string option"

record request =
  tool_name :: string
  arguments :: "tool_args option"

text \<open>
  A call ends in a response (\<open>isError\<close> is false when the source leaves the flag out) or in
  an exception that leaves the handler: an \<^verbatim>\<open>McpError\<close> with its code, or any other error.
\<close>

datatype mcp_code = InvalidParams | MethodNotFound

datatype fault = McpError mcp_code string | Thrown js_error

record response =
  resp_text :: string
  isError :: bool

definition arg_value :: "string option \<Rightarrow> jsval" where
  "arg_value a = map_option JStr a"

definition undefined_property_error :: "string \<Rightarrow> js_error" where
  "undefined_property_error name =
     Error (''Cannot read properties of undefined (reading '' @ sq @ name @ sq @ '')'')"

text \<open>The branch for \<^verbatim>\<open>configure_gcs\<close>.\<close>

definition configure_gcs :: "env \<Rightarrow> disk \<Rightarrow> tool_args option \<Rightarrow> (fault + response) \<times> disk \<times> event list" where
  "configure_gcs e d arguments' =
     (case arguments' of
        None \<Rightarrow> (Inl (Thrown (undefined_property_error ''bucketName'')), d, [])
      | Some args \<Rightarrow>
          (case save e d [(''bucketName'', arg_value (arg_bucketName args)),
                          (''projectId'', arg_value (arg_projectId args)),
                          (''subfolder'', arg_value (arg_subfolder args))] of
             (Some err, d') \<Rightarrow> (Inl (Thrown err), d', [])
           | (None, d') \<Rightarrow>
               (Inr \<lparr>resp_text =
                       ''Configuration saved for bucket '' @ sq @
                       template (arg_value (arg_bucketName args)) @ sq @
                       (if truthy (arg_value (arg_projectId args))
                        then '' in project '' @ sq @ template (arg_value (arg_projectId args)) @ sq
                        else []) @
                       (if truthy (arg_value (arg_subfolder args))
                        then '' with subfolder '' @ sq @ template (arg_value (arg_subfolder args)) @ sq
                        else []) @ ''.'',
                     isError = False\<rparr>,
                d', [])))"

text \<open>
  The block under the comment \<^verbatim>\<open>Sticky Subfolder Logic\<close>: the prefix of the request when it
  is not empty, else the stored subfolder when it is truthy, else a generated one, saved
  before anything else happens.
\<close>

definition stickySubfolder :: "env \<Rightarrow> disk \<Rightarrow> string \<Rightarrow> (js_error + jsval) \<times> disk" where
  "stickySubfolder e d destinationPrefix =
     (if destinationPrefix \<noteq> [] then (Inr (Some (JStr destinationPrefix)), d)
      else
        (case getSubfolder d of
           Inl err \<Rightarrow> (Inl err, d)
         | Inr storedSubfolder \<Rightarrow>
             if truthy storedSubfolder then (Inr storedSubfolder, d)
             else
               (let randomId = take 6 (drop 2 (random36 e));
                    finalDestinationPrefix = ''site-'' @ randomId
                in case save e d [(''subfolder'', Some (JStr finalDestinationPrefix))] of
                     (Some err, d') \<Rightarrow> (Inl err, d')
                   | (None, d') \<Rightarrow> (Inr (Some (JStr finalDestinationPrefix)), d'))))"

text \<open>
  \<^verbatim>\<open>trim\<close> removes white space at both ends; \<^verbatim>\<open>getCurrentIdentity\<close>, further down, always
  resolves, to the trimmed output of the child or to a fixed text.
\<close>

definition is_space :: "char \<Rightarrow> bool" where
  "is_space c \<longleftrightarrow> c \<in> set [CHR '' '', CHR 0x09, CHR 0x0A, CHR 0x0B, CHR 0x0C, CHR 0x0D]"

definition trim :: "string \<Rightarrow> string" where
  "trim s = rev (dropWhile is_space (rev (dropWhile is_space s)))"

text \<open>
  The branch for \<^verbatim>\<open>deploy_to_gcs\<close>, in the order of the source. Its first part, up to the
  \<^verbatim>\<open>try\<close>, settles the parameters: it ends early with a thrown error or with the response
  that lists the missing configuration, or it yields \<^verbatim>\<open>sourcePath\<close>, \<^verbatim>\<open>bucketName\<close>,
  \<^verbatim>\<open>projectId\<close> and \<^verbatim>\<open>finalDestinationPrefix\<close>.
\<close>

type_synonym parameters = "string \<times> jsval \<times> jsval \<times> jsval"

definition missing_response :: "string list \<Rightarrow> response" where
  "missing_response missingItems =
     \<lparr>resp_text =
        ''GCS configuration missing: '' @ join '', '' missingItems @ ''. '' @ nl @
        ''Please run the '' @ dq @ ''configure_gcs'' @ dq @
        '' tool to set your Google Cloud Project ID and GCS Bucket Name.'',
      isError = True\<rparr>"

definition resolveParameters ::
  "env \<Rightarrow> disk \<Rightarrow> tool_args \<Rightarrow> ((fault + response) + parameters) \<times> disk" where
  "resolveParameters e d args =
     (let sourcePath = arg_sourcePath args;
          destinationPrefix = (case arg_destinationPrefix args of Some p \<Rightarrow> p | None \<Rightarrow> [])
      in case (if truthy (arg_value (arg_bucketName args))
               then Inr (arg_value (arg_bucketName args)) else getBucket d) of
           Inl err \<Rightarrow> (Inl (Inl (Thrown err)), d)
         | Inr bucketName \<Rightarrow>
     (case getProject d of
        Inl err \<Rightarrow> (Inl (Inl (Thrown err)), d)
      | Inr projectId \<Rightarrow>
     (case stickySubfolder e d destinationPrefix of
        (Inl err, d') \<Rightarrow> (Inl (Inl (Thrown err)), d')
      | (Inr finalDestinationPrefix, d') \<Rightarrow>
     (case sourcePath of
        None \<Rightarrow> (Inl (Inl (McpError InvalidParams ''Missing required argument: sourcePath'')), d')
      | Some src \<Rightarrow>
          if src = []
          then (Inl (Inl (McpError InvalidParams ''Missing required argument: sourcePath'')), d')
          else
            (let missingItems =
                   (if \<not> truthy bucketName then [''bucketName''] else []) @
                   (if \<not> truthy projectId then [''projectId''] else [])
             in if length missingItems > 0
                then (Inl (Inr (missing_response missingItems)), d')
                else (Inr (src, bucketName, projectId, finalDestinationPrefix), d'))))))"

definition identity_command :: event where
  "identity_command = Spawn ''gcloud'' [''config'', ''get-value'', ''account'']"

definition getCurrentIdentity :: "env \<Rightarrow> string \<times> event list" where
  "getCurrentIdentity e =
     (if identity_exit e = Some 0 \<and> trim (identity_stdout e) \<noteq> []
      then trim (identity_stdout e)
      else ''unknown (could not determine identity)'',
      [identity_command])"

definition preflight :: "parameters \<Rightarrow> string \<Rightarrow> string" where
  "preflight ps identity =
     (case ps of (sourcePath, bucketName, projectId, finalDestinationPrefix) \<Rightarrow>
        ''Deploying '' @ sq @ sourcePath @ sq @
        '' to bucket '' @ sq @ template bucketName @ sq @
        '' in project '' @ sq @ template projectId @ sq @
        '' using identity '' @ sq @ identity @ sq @
        '' (subfolder: '' @ sq @ template finalDestinationPrefix @ sq @ '')...'')"

definition deploy_to_gcs :: "env \<Rightarrow> disk \<Rightarrow> tool_args option \<Rightarrow> (fault + response) \<times> disk \<times> event list" where
  "deploy_to_gcs e d arguments' =
     (case arguments' of
        None \<Rightarrow> (Inl (Thrown (undefined_property_error ''sourcePath'')), d, [])
      | Some args \<Rightarrow>
          (case resolveParameters e d args of
             (Inl early, d') \<Rightarrow> (early, d', [])
           | (Inr (sourcePath, bucketName, projectId, finalDestinationPrefix), d') \<Rightarrow>
               (let (identity, evs) = getCurrentIdentity e;
                    preflightMsg =
                      preflight (sourcePath, bucketName, projectId, finalDestinationPrefix) identity
                in case deploy e sourcePath bucketName finalDestinationPrefix of
                     (Inr publicUrls, evs') \<Rightarrow>
                       (Inr \<lparr>resp_text =
                               preflightMsg @ nl @ nl @
                               ''Successfully deployed to GCS. Public URLs:'' @ nl @
                               join nl publicUrls,
                             isError = False\<rparr>, d', evs @ evs')
                   | (Inl error, evs') \<Rightarrow>
                       (Inr \<lparr>resp_text = ''Error deploying to GCS: '' @ err_message error,
                             isError = True\<rparr>, d', evs @ evs'))))"

text \<open>The handler of \<^verbatim>\<open>CallToolRequestSchema\<close>.\<close>

definition callTool :: "env \<Rightarrow> disk \<Rightarrow> request \<Rightarrow> (fault + response) \<times> disk \<times> event list" where
  "callTool e d req =
     (if tool_name req = ''configure_gcs'' then configure_gcs e d (arguments req)
      else if tool_name req = ''deploy_to_gcs'' then deploy_to_gcs e d (arguments req)
      else (Inl (McpError MethodNotFound ''Unknown tool''), d, []))"

section \<open>Properties stated by the specification, and concrete calls\<close>

text \<open>The pattern \<^verbatim>\<open>site-[0-9a-z]{6}\<close>.\<close>

definition is_base36 :: "char \<Rightarrow> bool" where
  "is_base36 c \<longleftrightarrow> c \<in> set ''0123456789abcdefghijklmnopqrstuvwxyz''"

definition site_pattern :: "string \<Rightarrow> bool" where
  "site_pattern s \<longleftrightarrow> take 5 s = ''site-'' \<and> length (drop 5 s) = 6 \<and> list_all is_base36 (drop 5 s)"




text \<open>
  A machine on which nothing fails: \<^verbatim>\<open>gcloud\<close> knows an account, the login flow exits with
  0, the object store accepts every upload. Under \<^verbatim>\<open>/srv\<close> there are a file, a directory
  with two files, and nothing else; \<^verbatim>\<open>/dev/null\<close> is a device.
\<close>

definition enoent :: js_error where
  "enoent = \<lparr>err_code = StrCode ''ENOENT'', err_message = ''ENOENT: no such file or directory''\<rparr>"

definition quiet_env :: env where
  "quiet_env =
     \<lparr>mkdir_fault = None, write_fault = None, random36 = ''0.x7z91a4k2m'',
      identity_exit = Some 0, identity_stdout = ''dev@example.com'' @ nl,
      login_flow = Closed (Some 0),
      statSync = (\<lambda>p.
        if p = ''/srv/report.pdf'' then Inr RegularFile
        else if p = ''/srv/site'' then
          Inr (Directory [(''a.txt'', RegularFile), (''sub'', Directory [(''b.txt'', RegularFile)])])
        else if p = ''/dev/null'' then Inr SpecialFile
        else Inl enoent),
      mime_lookup = (\<lambda>p. None),
      upload_fault = (\<lambda>p dst. None),
      makePublic_fault = (\<lambda>dst. None)\<rparr>"

definition empty_disk :: disk where
  "empty_disk = \<lparr>dir_exists = False, cfg_file = Missing\<rparr>"

definition configured_disk :: disk where
  "configured_disk =
     \<lparr>dir_exists = True,
      cfg_file = Parses (JObj [(''bucketName'', JStr ''b1''), (''projectId'', JStr ''p1'')])\<rparr>"

definition no_args :: tool_args where
  "no_args =
     \<lparr>arg_sourcePath = None, arg_bucketName = None, arg_destinationPrefix = None,
      arg_projectId = None, arg_subfolder = None\<rparr>"

definition eacces :: js_error where
  "eacces = \<lparr>err_code = StrCode ''EACCES'', err_message = ''EACCES: permission denied''\<rparr>"

definition enospc :: js_error where
  "enospc = \<lparr>err_code = StrCode ''ENOSPC'', err_message = ''ENOSPC: no space left on device''\<rparr>"

definition unauthorized :: js_error where
  "unauthorized = \<lparr>err_code = NumCode 401, err_message = ''Unauthorized''\<rparr>"


text \<open>The error, if any, that \<^verbatim>\<open>save\<close> meets on a disk: from \<^verbatim>\<open>mkdirSync\<close> or from \<^verbatim>\<open>writeFileSync\<close>.\<close>

definition store_failure :: "env \<Rightarrow> disk \<Rightarrow> js_error option" where
  "store_failure e d =
     (if \<not> dir_exists d \<and> mkdir_fault e \<noteq> None then mkdir_fault e
      else map_option failure_error (write_fault e))"

text \<open>The prefix a request carries: \<^verbatim>\<open>args.destinationPrefix || ''\<close>.\<close>

definition requested_prefix :: "tool_args \<Rightarrow> string" where
  "requested_prefix args = (case arg_destinationPrefix args of Some p \<Rightarrow> p | None \<Rightarrow> [])"

definition generated_subfolder :: "env \<Rightarrow> string" where
  "generated_subfolder e = ''site-'' @ take 6 (drop 2 (random36 e))"

definition deploy_call :: "tool_args \<Rightarrow> request" where
  "deploy_call args = \<lparr>tool_name = ''deploy_to_gcs'', arguments = Some args\<rparr>"

definition configure_call :: "tool_args \<Rightarrow> request" where
  "configure_call args = \<lparr>tool_name = ''configure_gcs'', arguments = Some args\<rparr>"

text \<open>The three parts of what a call leaves behind.\<close>

definition outcome :: "env \<Rightarrow> disk \<Rightarrow> request \<Rightarrow> fault + response" where
  "outcome e d req = fst (callTool e d req)"

definition disk_after :: "env \<Rightarrow> disk \<Rightarrow> request \<Rightarrow> disk" where
  "disk_after e d req = fst (snd (callTool e d req))"

definition calls_made :: "env \<Rightarrow> disk \<Rightarrow> request \<Rightarrow> event list" where
  "calls_made e d req = snd (snd (callTool e d req))"

section \<open>Auxiliary facts\<close>

lemmas fixture_defs = quiet_env_def empty_disk_def configured_disk_def no_args_def

lemmas config_defs = save_def load_def getBucket_def getProject_def getSubfolder_def
  get_property_def spread_def stringify_def List.map_filter_def arg_value_def Let_def

lemmas handler_defs = callTool_def deploy_call_def configure_call_def configure_gcs_def
  deploy_to_gcs_def resolveParameters_def stickySubfolder_def missing_response_def
  getCurrentIdentity_def preflight_def template_def outcome_def disk_after_def calls_made_def

lemmas upload_defs = deploy_def deploy_try_def uploadFile_def path_join_def basename_def
  path_relative_def recovery_try_def attemptAutoAuth_def isAuthError_def

subsection \<open>Strings and events\<close>







text \<open>
  What \<^verbatim>\<open>deploy\<close> throws for an authentication error when the login flow exits with 0.
\<close>

lemma recovery_message_after_login:
  assumes "statSync e src = Inr stats"
    and "deploy_try e src b pre stats = (Inl err, evs)"
    and "isAuthError err"
    and "login_flow e = Closed (Some 0)"
  shows "deploy e src b pre =
           (Inl (Error (''Authentication failed and could not launch gcloud: '' @
                   auth_missing_message @ ''. Original error: '' @ err_message err)),
            evs @ [login_command])"
  using assms by (simp add: deploy_def recovery_try_def attemptAutoAuth_def Error_def)

subsection \<open>Config Store\<close>

lemma get_property_Inr: "get_property v k = Inr x \<Longrightarrow> v \<noteq> JNull"
  by (auto simp: get_property_def)

lemma get_property_defined: "v \<noteq> JNull \<Longrightarrow> \<exists>x. get_property v k = Inr x"
  by (cases v) (auto simp: get_property_def)

lemma load_dir_exists [simp]: "load (d\<lparr>dir_exists := b\<rparr>) = load d"
  by (simp add: load_def)

lemma save_fst: "fst (save e d config) = store_failure e d"
  by (auto simp: save_def store_failure_def failure_error_def Let_def
      split: option.splits write_failure.splits)

text \<open>
  A write that fails after the open leaves a file that \<^verbatim>\<open>load\<close> reads as the empty record:
  what was stored before is gone.
\<close>

lemma failed_write_empties_file:
  assumes "dir_exists d" and "write_fault e = Some (WriteFails err)"
  shows "save e d config = (Some err, d\<lparr>cfg_file := Unparseable\<rparr>)"
    and "load (snd (save e d config)) = JObj []"
  using assms by (simp_all add: save_def Let_def load_def)

lemma map_of_stringify:
  "map_of obj k = Some (Some v) \<Longrightarrow>
   map_of (List.map_filter (\<lambda>(k, v). map_option (Pair k) v) obj) k = Some v"
  by (induction obj) (auto simp: List.map_filter_simps split: option.splits if_splits)

lemma stringify_lookup:
  "list_all (\<lambda>(k, v). v \<noteq> None) obj \<Longrightarrow>
   map_of (List.map_filter (\<lambda>(k, v). map_option (Pair k) v) obj) k =
     (case map_of obj k of None \<Rightarrow> None | Some v \<Rightarrow> v)"
  by (induction obj) (auto simp: List.map_filter_simps split: option.splits)

lemma update_all:
  "list_all P al \<Longrightarrow> P (k, v) \<Longrightarrow> list_all P (AList.update k v al)"
  by (induction al) auto

lemma save_subfolder:
  assumes "store_failure e d = None"
  shows "getSubfolder (snd (save e d [(''subfolder'', Some v)])) = Inr (Some v)"
proof -
  have "map_of (AList.update ''subfolder'' (Some v) (own_properties (load d))) ''subfolder'' =
          Some (Some v)"
    by (simp add: update_conv')
  then have "map_of (List.map_filter (\<lambda>(k, v). map_option (Pair k) v)
               (AList.update ''subfolder'' (Some v) (own_properties (load d)))) ''subfolder'' = Some v"
    by (rule map_of_stringify)
  with assms show ?thesis
    by (auto simp: save_def store_failure_def Let_def getSubfolder_def get_property_def load_def
        spread_def stringify_def split: option.splits if_splits write_failure.splits)
qed

text \<open>
  \<^verbatim>\<open>save\<close> called with an object that has the one property \<^verbatim>\<open>subfolder\<close>, as the sticky
  subfolder logic calls it, keeps every other property of a stored object.
\<close>

lemma save_keeps_other_fields:
  assumes "store_failure e d = None" and "load d = JObj ps" and "k \<noteq> ''subfolder''"
  shows "get_property (load (snd (save e d [(''subfolder'', Some v)]))) k = Inr (map_of ps k)"
proof -
  let ?obj = "AList.update ''subfolder'' (Some v) (map (\<lambda>(k, v). (k, Some v)) ps)"
  have "list_all (\<lambda>(k, v). v \<noteq> None) (map (\<lambda>(k, v). (k, Some v)) ps)"
    by (induction ps) auto
  then have all: "list_all (\<lambda>(k, v). v \<noteq> None) ?obj"
    by (rule update_all) simp
  have "map_of (map (\<lambda>(k, v). (k, Some v)) ps) k = map_option Some (map_of ps k)"
    by (induction ps) auto
  with assms(3) have "map_of ?obj k = map_option Some (map_of ps k)"
    by (simp add: update_conv')
  with stringify_lookup [OF all, of k]
  have "map_of (List.map_filter (\<lambda>(k, v). map_option (Pair k) v) ?obj) k = map_of ps k"
    by (cases "map_of ps k") simp_all
  with assms(1,2) show ?thesis
    by (auto simp: save_def store_failure_def Let_def get_property_def load_def
        spread_def stringify_def split: option.splits if_splits write_failure.splits)
qed

lemma stringify_absent:
  "k \<notin> fst ` set obj \<Longrightarrow>
   map_of (List.map_filter (\<lambda>(k, v). map_option (Pair k) v) obj) k = None"
  by (induction obj) (auto simp: List.map_filter_simps split: option.splits)

lemma stringify_distinct:
  "distinct (map fst obj) \<Longrightarrow>
   map_of (List.map_filter (\<lambda>(k, v). map_option (Pair k) v) obj) k =
     (case map_of obj k of None \<Rightarrow> None | Some v \<Rightarrow> v)"
proof (induction obj)
  case Nil
  then show ?case by (simp add: List.map_filter_simps)
next
  case (Cons kv obj)
  obtain k' v' where kv: "kv = (k', v')" by (cases kv)
  show ?case
  proof (cases "k' = k")
    case True
    with Cons.prems kv have "k \<notin> fst ` set obj" by auto
    from stringify_absent [OF this] True kv show ?thesis
      by (cases v') (simp_all add: List.map_filter_simps)
  next
    case False
    with Cons kv show ?thesis
      by (cases v') (simp_all add: List.map_filter_simps)
  qed
qed

text \<open>
  Two calls of \<^verbatim>\<open>save\<close> itself, each with the one property it sets, do merge.
\<close>

lemma save_twice_merges:
  "load (snd (save quiet_env (snd (save quiet_env empty_disk [(''bucketName'', Some (JStr ''b1''))]))
          [(''projectId'', Some (JStr ''p1''))])) =
     JObj [(''bucketName'', JStr ''b1''), (''projectId'', JStr ''p1'')]"
  by (simp add: config_defs fixture_defs)

subsection \<open>The handler, step by step\<close>

lemma callTool_deploy [simp]: "callTool e d (deploy_call args) = deploy_to_gcs e d (Some args)"
  by (simp add: callTool_def deploy_call_def)

lemma callTool_configure [simp]:
  "callTool e d (configure_call args) = configure_gcs e d (Some args)"
  by (simp add: callTool_def configure_call_def)

text \<open>
  \<^verbatim>\<open>configure_gcs\<close> on a stored object sets all three fields to what the call carries,
  \<^verbatim>\<open>undefined\<close> for what it leaves out; and it never throws an \<^verbatim>\<open>McpError\<close>.
\<close>

lemma configure_replaces_fields:
  assumes "store_failure e d = None" and "load d = JObj ps" and "distinct (map fst ps)"
  shows "getBucket (disk_after e d (configure_call args)) = Inr (arg_value (arg_bucketName args))"
    and "getProject (disk_after e d (configure_call args)) = Inr (arg_value (arg_projectId args))"
    and "getSubfolder (disk_after e d (configure_call args)) = Inr (arg_value (arg_subfolder args))"
proof -
  let ?al = "map (\<lambda>(k, v). (k, Some v)) ps"
  let ?new = "AList.update ''subfolder'' (arg_value (arg_subfolder args))
               (AList.update ''projectId'' (arg_value (arg_projectId args))
                 (AList.update ''bucketName'' (arg_value (arg_bucketName args)) ?al))"
  have "map fst ?al = map fst ps" by (induction ps) auto
  with assms(3) have "distinct (map fst ?al)" by (simp only:)
  then have dist: "distinct (map fst ?new)" by (simp add: distinct_update)
  have after: "disk_after e d (configure_call args) =
      d\<lparr>dir_exists := True, cfg_file := Parses (stringify ?new)\<rparr>"
    using assms(1,2)
    by (auto simp: disk_after_def configure_gcs_def save_def store_failure_def Let_def spread_def
        split: option.splits if_splits write_failure.splits)
  have look: "get_property (load (disk_after e d (configure_call args))) k =
      Inr (case map_of ?new k of None \<Rightarrow> None | Some v \<Rightarrow> v)" for k
    unfolding after by (simp add: load_def stringify_def get_property_def stringify_distinct [OF dist])
  show "getBucket (disk_after e d (configure_call args)) = Inr (arg_value (arg_bucketName args))"
    unfolding getBucket_def look by (simp add: update_conv')
  show "getProject (disk_after e d (configure_call args)) = Inr (arg_value (arg_projectId args))"
    unfolding getProject_def look by (simp add: update_conv')
  show "getSubfolder (disk_after e d (configure_call args)) = Inr (arg_value (arg_subfolder args))"
    unfolding getSubfolder_def look by (simp add: update_conv')
qed

lemma configure_never_invalid_params:
  "outcome e d (configure_call args) \<noteq> Inl (McpError code msg)"
  by (cases "save e d [(''bucketName'', arg_value (arg_bucketName args)),
                        (''projectId'', arg_value (arg_projectId args)),
                        (''subfolder'', arg_value (arg_subfolder args))]")
    (auto simp: outcome_def configure_gcs_def split: option.splits)

lemma sticky_generates:
  assumes "getSubfolder d = Inr stored" and "\<not> truthy stored"
  shows "stickySubfolder e d [] =
           (case store_failure e d of
              Some err \<Rightarrow> Inl err
            | None \<Rightarrow> Inr (Some (JStr (generated_subfolder e))),
            snd (save e d [(''subfolder'', Some (JStr (generated_subfolder e)))]))"
proof -
  obtain d1 where s: "save e d [(''subfolder'', Some (JStr (generated_subfolder e)))] =
      (store_failure e d, d1)"
    using save_fst [of e d "[(''subfolder'', Some (JStr (generated_subfolder e)))]"]
    by (cases "save e d [(''subfolder'', Some (JStr (generated_subfolder e)))]") simp
  have "stickySubfolder e d [] =
      (case save e d [(''subfolder'', Some (JStr (generated_subfolder e)))] of
         (Some err, d') \<Rightarrow> (Inl err, d')
       | (None, d') \<Rightarrow> (Inr (Some (JStr (generated_subfolder e))), d'))"
    using assms unfolding stickySubfolder_def Let_def generated_subfolder_def by simp
  then show ?thesis
    unfolding s by (cases "store_failure e d") simp_all
qed

lemma bucket_read:
  assumes "load d \<noteq> JNull"
  shows "\<exists>b. (if truthy (arg_value (arg_bucketName args))
               then Inr (arg_value (arg_bucketName args)) else getBucket d) = Inr b"
  using get_property_defined [OF assms, of "''bucketName''"]
  by (cases "truthy (arg_value (arg_bucketName args))") (auto simp: getBucket_def)

lemma resolve_disk:
  assumes "load d \<noteq> JNull"
  shows "snd (resolveParameters e d args) = snd (stickySubfolder e d (requested_prefix args))"
proof -
  from bucket_read [OF assms] obtain b where
    b: "(if truthy (arg_value (arg_bucketName args))
         then Inr (arg_value (arg_bucketName args)) else getBucket d) = Inr b"
    by blast
  obtain p where p: "getProject d = Inr p"
    using get_property_defined [OF assms] by (auto simp: getProject_def)
  obtain r d' where s: "stickySubfolder e d (requested_prefix args) = (r, d')"
    by (cases "stickySubfolder e d (requested_prefix args)")
  show ?thesis
    unfolding resolveParameters_def Let_def b p requested_prefix_def [symmetric] s
    by (cases r; cases "arg_sourcePath args") simp_all
qed

lemma resolve_sticky_failure:
  assumes "load d \<noteq> JNull"
    and "stickySubfolder e d (requested_prefix args) = (Inl err, d')"
  shows "resolveParameters e d args = (Inl (Inl (Thrown err)), d')"
proof -
  from bucket_read [OF assms(1)] obtain b where
    b: "(if truthy (arg_value (arg_bucketName args))
         then Inr (arg_value (arg_bucketName args)) else getBucket d) = Inr b"
    by blast
  obtain p where p: "getProject d = Inr p"
    using get_property_defined [OF assms(1)] by (auto simp: getProject_def)
  show ?thesis
    unfolding resolveParameters_def Let_def b p requested_prefix_def [symmetric] assms(2)
    by simp
qed


lemma deploy_disk:
  "fst (snd (deploy_to_gcs e d (Some args))) = snd (resolveParameters e d args)"
  by (simp add: deploy_to_gcs_def Let_def split: prod.splits sum.splits)

lemma deploy_early:
  "resolveParameters e d args = (Inl early, d') \<Longrightarrow>
   deploy_to_gcs e d (Some args) = (early, d', [])"
  by (simp add: deploy_to_gcs_def)


text \<open>
  A call without a prefix on a disk without a subfolder: the disk it leaves is the disk
  \<^verbatim>\<open>save\<close> leaves, whatever the call answers; a failed \<^verbatim>\<open>save\<close> is what the call throws.
\<close>

lemma generated_subfolder_stored:
  assumes "\<not> truthy (arg_value (arg_destinationPrefix args))"
    and "getSubfolder d = Inr stored"
    and "\<not> truthy stored"
  shows "fst (snd (deploy_to_gcs e d (Some args))) =
           snd (save e d [(''subfolder'', Some (JStr (generated_subfolder e)))])"
    and "store_failure e d = Some err \<Longrightarrow> fst (deploy_to_gcs e d (Some args)) = Inl (Thrown err)"
    and "store_failure e d = None \<Longrightarrow>
           getSubfolder (fst (snd (deploy_to_gcs e d (Some args)))) =
             Inr (Some (JStr (generated_subfolder e)))"
proof -
  from assms(2) have nn: "load d \<noteq> JNull"
    by (auto simp: getSubfolder_def dest: get_property_Inr)
  from assms(1) have pfx: "requested_prefix args = []"
    by (auto simp: requested_prefix_def arg_value_def split: option.splits)
  note gen = sticky_generates [OF assms(2,3), of e]
  show disk: "fst (snd (deploy_to_gcs e d (Some args))) =
           snd (save e d [(''subfolder'', Some (JStr (generated_subfolder e)))])"
    by (simp add: deploy_disk resolve_disk [OF nn] pfx gen)
  show "fst (deploy_to_gcs e d (Some args)) = Inl (Thrown err)" if "store_failure e d = Some err"
  proof -
    from that gen have "stickySubfolder e d (requested_prefix args) =
        (Inl err, snd (save e d [(''subfolder'', Some (JStr (generated_subfolder e)))]))"
      by (simp add: pfx)
    from resolve_sticky_failure [OF nn this] show ?thesis
      by (simp add: deploy_early)
  qed
  show "getSubfolder (fst (snd (deploy_to_gcs e d (Some args)))) =
          Inr (Some (JStr (generated_subfolder e)))" if "store_failure e d = None"
    using disk save_subfolder [OF that] by simp
qed

text \<open>
  The subfolder a call generated and stored is the one the next call without a prefix
  uses, whatever \<^verbatim>\<open>Math.random\<close> answers then.
\<close>

lemma generated_subfolder_is_sticky:
  assumes "\<not> truthy (arg_value (arg_destinationPrefix args))"
    and "getSubfolder d = Inr stored"
    and "\<not> truthy stored"
    and "store_failure e d = None"
  shows "stickySubfolder e' (fst (snd (deploy_to_gcs e d (Some args)))) [] =
           (Inr (Some (JStr (generated_subfolder e))), fst (snd (deploy_to_gcs e d (Some args))))"
  using generated_subfolder_stored(3) [OF assms]
  by (simp add: stickySubfolder_def generated_subfolder_def)

lemma long_random_token_matches:
  assumes "8 \<le> length (random36 e)" and "list_all is_base36 (take 6 (drop 2 (random36 e)))"
  shows "site_pattern (generated_subfolder e)"
  using assms by (simp add: site_pattern_def generated_subfolder_def)

section \<open>Config Store: claims C1, C8 and C9\<close>

text \<open>
  Claim C1. \<^verbatim>\<open>configure_gcs({bucketName: "b1"})\<close>, then \<^verbatim>\<open>configure_gcs({projectId: "p1"})\<close>,
  then \<^verbatim>\<open>load()\<close>, on a machine where nothing fails and no configuration exists yet. The
  handler passes \<^verbatim>\<open>save\<close> an object with all three properties, \<^verbatim>\<open>undefined\<close> for an argument
  the call left out; the spread puts that \<^verbatim>\<open>undefined\<close> over the stored value and
  \<^verbatim>\<open>JSON.stringify\<close> drops the property. After the first call the record holds the bucket;
  after the second it holds the project only.
\<close>

theorem configure_twice_loses_bucket:
  "load (disk_after quiet_env empty_disk
           (configure_call (no_args\<lparr>arg_bucketName := Some ''b1''\<rparr>))) =
     JObj [(''bucketName'', JStr ''b1'')] \<and>
   load (disk_after quiet_env
           (disk_after quiet_env empty_disk
              (configure_call (no_args\<lparr>arg_bucketName := Some ''b1''\<rparr>)))
           (configure_call (no_args\<lparr>arg_projectId := Some ''p1''\<rparr>))) =
     JObj [(''projectId'', JStr ''p1'')]"
  by (simp add: handler_defs config_defs fixture_defs)

text \<open>
  The same loss with calls that both carry the required \<^verbatim>\<open>bucketName\<close>: naming a new bucket
  erases the stored project.
\<close>

lemma reconfigured_bucket_loses_project:
  "load (disk_after quiet_env configured_disk
           (configure_call (no_args\<lparr>arg_bucketName := Some ''b2''\<rparr>))) =
     JObj [(''bucketName'', JStr ''b2'')]"
  by (simp add: handler_defs config_defs fixture_defs)

text \<open>
  Claim C8, as amended. \<^verbatim>\<open>load\<close> never throws: it is a total function of the disk. It
  returns the empty record when the file is absent, cannot be read or does not parse;
  when the text parses it returns the parsed value as it is, whatever its shape. The
  three accessors return a value whenever \<^verbatim>\<open>load\<close> returns anything but \<^verbatim>\<open>null\<close>.
\<close>

theorem load_fails_open:
  "(cfg_file d \<in> {Missing, Unreadable, Unparseable} \<longrightarrow> load d = JObj []) \<and>
   (\<forall>v. cfg_file d = Parses v \<longrightarrow> load d = v) \<and>
   (load d \<noteq> JNull \<longrightarrow>
      (\<exists>b p s. getBucket d = Inr b \<and> getProject d = Inr p \<and> getSubfolder d = Inr s))"
proof (intro conjI impI allI)
  assume "cfg_file d \<in> {Missing, Unreadable, Unparseable}"
  then show "load d = JObj []" by (auto simp: load_def)
next
  fix v assume "cfg_file d = Parses v"
  then show "load d = v" by (simp add: load_def)
next
  assume "load d \<noteq> JNull"
  then show "\<exists>b p s. getBucket d = Inr b \<and> getProject d = Inr p \<and> getSubfolder d = Inr s"
    unfolding getBucket_def getProject_def getSubfolder_def
    by (meson get_property_defined)
qed

text \<open>A file of text that is no JSON, and a file that holds the JSON array \<^verbatim>\<open>[1]\<close>.\<close>

theorem load_fails_open_witness:
  "cfg_file \<lparr>dir_exists = True, cfg_file = Unparseable\<rparr> \<in> {Missing, Unreadable, Unparseable} \<and>
   load \<lparr>dir_exists = True, cfg_file = Unparseable\<rparr> = JObj [] \<and>
   load \<lparr>dir_exists = True, cfg_file = Unparseable\<rparr> \<noteq> JNull \<and>
   getBucket \<lparr>dir_exists = True, cfg_file = Unparseable\<rparr> = Inr None \<and>
   cfg_file \<lparr>dir_exists = True, cfg_file = Parses (JArr [JNum 1])\<rparr> = Parses (JArr [JNum 1]) \<and>
   load \<lparr>dir_exists = True, cfg_file = Parses (JArr [JNum 1])\<rparr> = JArr [JNum 1]"
proof -
  let ?d = "\<lparr>dir_exists = True, cfg_file = Unparseable\<rparr>"
  let ?d' = "\<lparr>dir_exists = True, cfg_file = Parses (JArr [JNum 1])\<rparr>"
  have h1: "cfg_file ?d \<in> {Missing, Unreadable, Unparseable}"
    by simp
  have h2: "cfg_file ?d' = Parses (JArr [JNum 1])"
    by simp
  from load_fails_open [of ?d] h1 have a: "load ?d = JObj []" by blast
  then have nn: "load ?d \<noteq> JNull" by simp
  with load_fails_open [of ?d] obtain b where "getBucket ?d = Inr b" by blast
  then have b: "getBucket ?d = Inr None"
    by (simp add: getBucket_def get_property_def a)
  from load_fails_open [of ?d'] h2 have c: "load ?d' = JArr [JNum 1]" by blast
  from h1 h2 a nn b c show ?thesis by blast
qed

text \<open>
  Claim C8 as stated fails on a file that holds the JSON text \<^verbatim>\<open>null\<close>: \<^verbatim>\<open>load\<close> returns
  \<^verbatim>\<open>null\<close>, not an empty record, and \<^verbatim>\<open>getBucket\<close> throws a \<^verbatim>\<open>TypeError\<close>.
\<close>

theorem null_config_counterexample:
  "load \<lparr>dir_exists = True, cfg_file = Parses JNull\<rparr> = JNull \<and>
   load \<lparr>dir_exists = True, cfg_file = Parses JNull\<rparr> \<noteq> JObj [] \<and>
   getBucket \<lparr>dir_exists = True, cfg_file = Parses JNull\<rparr> =
     Inl (null_property_error ''bucketName'')"
  by (simp add: load_def getBucket_def get_property_def)

text \<open>
  Claim C9, as amended. When the Config Store cannot create its directory or write its
  file, \<^verbatim>\<open>configure_gcs\<close> does not swallow the failure: the error \<^verbatim>\<open>save\<close> throws leaves the
  handler as it is, an exception and not a response.
\<close>

theorem write_failure_is_thrown:
  assumes "store_failure e d = Some err"
  shows "outcome e d (configure_call args) = Inl (Thrown err)"
proof -
  let ?cfg = "[(''bucketName'', arg_value (arg_bucketName args)),
               (''projectId'', arg_value (arg_projectId args)),
               (''subfolder'', arg_value (arg_subfolder args))]"
  obtain d1 where s: "save e d ?cfg = (Some err, d1)"
    using save_fst [of e d ?cfg] assms by (cases "save e d ?cfg") simp
  then show ?thesis
    by (simp add: configure_gcs_def outcome_def)
qed

text \<open>A configured machine whose disk fills up while the file is written.\<close>

theorem write_failure_is_thrown_witness:
  "store_failure (quiet_env\<lparr>write_fault := Some (WriteFails enospc)\<rparr>) configured_disk =
     Some enospc \<and>
   outcome (quiet_env\<lparr>write_fault := Some (WriteFails enospc)\<rparr>) configured_disk
     (configure_call (no_args\<lparr>arg_bucketName := Some ''b2''\<rparr>)) = Inl (Thrown enospc)"
proof -
  have h: "store_failure (quiet_env\<lparr>write_fault := Some (WriteFails enospc)\<rparr>) configured_disk =
      Some enospc"
    by (simp add: store_failure_def failure_error_def fixture_defs)
  from write_failure_is_thrown [OF h, of "no_args\<lparr>arg_bucketName := Some ''b2''\<rparr>"] h
  show ?thesis by simp
qed

text \<open>
  Claim C9 as stated fails on a home directory that cannot be written: the call ends in
  the thrown error, not in a response with the error flag.
\<close>

theorem write_failure_counterexample:
  "store_failure (quiet_env\<lparr>write_fault := Some (OpenFails eacces)\<rparr>) empty_disk = Some eacces \<and>
   outcome (quiet_env\<lparr>write_fault := Some (OpenFails eacces)\<rparr>) empty_disk
     (configure_call (no_args\<lparr>arg_bucketName := Some ''b1''\<rparr>)) = Inl (Thrown eacces)"
  by (simp add: store_failure_def failure_error_def handler_defs config_defs fixture_defs)

section \<open>Required arguments: claim C3\<close>

text \<open>
  Claim C3. \<^verbatim>\<open>configure_gcs\<close> called with no argument at all, on a machine that holds a
  bucket and a project. The branch has no check of \<^verbatim>\<open>bucketName\<close>: the call answers with a
  normal response that names the bucket \<^verbatim>\<open>undefined\<close>, and the stored bucket and project
  are gone.
\<close>

theorem configure_without_bucket_is_accepted:
  "callTool quiet_env configured_disk (configure_call no_args) =
     (Inr \<lparr>resp_text = ''Configuration saved for bucket '' @ sq @ ''undefined'' @ sq @ ''.'',
           isError = False\<rparr>,
      \<lparr>dir_exists = True, cfg_file = Parses (JObj [])\<rparr>, [])"
  by (simp add: handler_defs config_defs fixture_defs)

text \<open>The sibling branch does check: \<^verbatim>\<open>deploy_to_gcs\<close> without \<^verbatim>\<open>sourcePath\<close> throws.\<close>

lemma deploy_without_source_is_refused:
  "outcome quiet_env configured_disk (deploy_call no_args) =
     Inl (McpError InvalidParams ''Missing required argument: sourcePath'')"
  by (simp add: handler_defs config_defs fixture_defs)

section \<open>Parameter Resolver: claims C5, C6 and C10\<close>

text \<open>
  Claim C5. \<^verbatim>\<open>Math.random()\<close> answers 0.5, whose rendering in base 36 is \<^verbatim>\<open>0.i\<close>;
  \<^verbatim>\<open>substring(2, 8)\<close> of it is the one character \<^verbatim>\<open>i\<close>. The subfolder the call generates,
  stores and uploads to is \<^verbatim>\<open>site-i\<close>, which does not match \<^verbatim>\<open>site-[0-9a-z]{6}\<close>.
\<close>

theorem short_random_token:
  "getSubfolder (disk_after (quiet_env\<lparr>random36 := ''0.i''\<rparr>) configured_disk
     (deploy_call (no_args\<lparr>arg_sourcePath := Some ''/srv/report.pdf''\<rparr>))) =
     Inr (Some (JStr ''site-i'')) \<and>
   calls_made (quiet_env\<lparr>random36 := ''0.i''\<rparr>) configured_disk
     (deploy_call (no_args\<lparr>arg_sourcePath := Some ''/srv/report.pdf''\<rparr>)) =
     [identity_command,
      Upload ''/srv/report.pdf'' ''site-i/report.pdf'' ''application/octet-stream'',
      MakePublic ''site-i/report.pdf''] \<and>
   \<not> site_pattern ''site-i''"
  by (simp add: handler_defs config_defs upload_defs fixture_defs site_pattern_def)




text \<open>
  Claim C10, as amended. A call that carries arguments but no \<^verbatim>\<open>destinationPrefix\<close>, on a
  disk whose \<^verbatim>\<open>getSubfolder\<close> answers with a falsy value, saves the generated subfolder
  before it checks anything: whatever the call answers, the disk it leaves is the disk
  \<^verbatim>\<open>save\<close> leaves. When the store accepts the write, the stored subfolder is the generated
  one, also when the call then fails; when the store refuses, that error is what the
  call throws.
\<close>

theorem subfolder_saved_before_validation:
  assumes "\<not> truthy (arg_value (arg_destinationPrefix args))"
    and "getSubfolder d = Inr stored"
    and "\<not> truthy stored"
  shows "disk_after e d (deploy_call args) =
           snd (save e d [(''subfolder'', Some (JStr (generated_subfolder e)))]) \<and>
         (case store_failure e d of
            Some err \<Rightarrow> outcome e d (deploy_call args) = Inl (Thrown err)
          | None \<Rightarrow>
              getSubfolder (disk_after e d (deploy_call args)) =
                Inr (Some (JStr (generated_subfolder e))))"
  using generated_subfolder_stored [OF assms, of e]
  by (cases "store_failure e d") (simp_all add: outcome_def disk_after_def)

text \<open>
  Three calls that fail after the save, each leaving \<^verbatim>\<open>site-x7z91a\<close> behind: one without
  \<^verbatim>\<open>sourcePath\<close>, one without configuration, one whose source path does not exist.
\<close>

theorem subfolder_saved_before_validation_witness:
  "(\<not> truthy (arg_value (arg_destinationPrefix no_args)) \<and>
    getSubfolder empty_disk = Inr None \<and> \<not> truthy None \<and>
    outcome quiet_env empty_disk (deploy_call no_args) =
      Inl (McpError InvalidParams ''Missing required argument: sourcePath'') \<and>
    getSubfolder (disk_after quiet_env empty_disk (deploy_call no_args)) =
      Inr (Some (JStr ''site-x7z91a''))) \<and>
   (outcome quiet_env empty_disk
      (deploy_call (no_args\<lparr>arg_sourcePath := Some ''/srv/report.pdf''\<rparr>)) =
      Inr (missing_response [''bucketName'', ''projectId'']) \<and>
    getSubfolder (disk_after quiet_env empty_disk
      (deploy_call (no_args\<lparr>arg_sourcePath := Some ''/srv/report.pdf''\<rparr>))) =
      Inr (Some (JStr ''site-x7z91a''))) \<and>
   (getSubfolder configured_disk = Inr None \<and>
    outcome quiet_env configured_disk
      (deploy_call (no_args\<lparr>arg_sourcePath := Some ''/srv/missing''\<rparr>)) =
      Inr \<lparr>resp_text = ''Error deploying to GCS: ENOENT: no such file or directory'',
            isError = True\<rparr> \<and>
    getSubfolder (disk_after quiet_env configured_disk
      (deploy_call (no_args\<lparr>arg_sourcePath := Some ''/srv/missing''\<rparr>))) =
      Inr (Some (JStr ''site-x7z91a'')))"
proof -
  have h1: "\<not> truthy (arg_value (arg_destinationPrefix no_args))"
    and h1': "\<not> truthy (arg_value (arg_destinationPrefix (no_args\<lparr>arg_sourcePath := Some src\<rparr>)))"
    for src
    by (simp_all add: no_args_def arg_value_def)
  have h2: "getSubfolder empty_disk = Inr None" and h2': "getSubfolder configured_disk = Inr None"
    by (simp_all add: fixture_defs config_defs)
  have h3: "\<not> truthy None" by simp
  have ok: "store_failure quiet_env empty_disk = None"
    "store_failure quiet_env configured_disk = None"
    by (simp_all add: store_failure_def fixture_defs)
  have gen: "generated_subfolder quiet_env = ''site-x7z91a''"
    by (simp add: generated_subfolder_def quiet_env_def)
  have r1: "outcome quiet_env empty_disk (deploy_call no_args) =
      Inl (McpError InvalidParams ''Missing required argument: sourcePath'')"
    by (simp add: handler_defs config_defs fixture_defs)
  have r2: "outcome quiet_env empty_disk
      (deploy_call (no_args\<lparr>arg_sourcePath := Some ''/srv/report.pdf''\<rparr>)) =
      Inr (missing_response [''bucketName'', ''projectId''])"
    by (simp add: handler_defs config_defs fixture_defs)
  have r3: "outcome quiet_env configured_disk
      (deploy_call (no_args\<lparr>arg_sourcePath := Some ''/srv/missing''\<rparr>)) =
      Inr \<lparr>resp_text = ''Error deploying to GCS: ENOENT: no such file or directory'',
            isError = True\<rparr>"
    by (simp add: handler_defs config_defs upload_defs fixture_defs enoent_def)
  from subfolder_saved_before_validation [OF h1 h2 h3, of quiet_env, THEN conjunct2]
    subfolder_saved_before_validation
      [OF h1' [of "''/srv/report.pdf''"] h2 h3, of quiet_env, THEN conjunct2]
    subfolder_saved_before_validation
      [OF h1' [of "''/srv/missing''"] h2' h3, of quiet_env, THEN conjunct2]
    h1 h2 h2' h3 r1 r2 r3
  show ?thesis
    by (simp add: ok gen)
qed

text \<open>
  Claim C10 as stated fails on three calls without a prefix that find no subfolder and
  leave none. The first meets a disk that refuses the write. The second finds the text
  \<^verbatim>\<open>null\<close> in the file and throws at \<^verbatim>\<open>getBucket\<close>. The third carries no arguments and
  throws at \<^verbatim>\<open>args.sourcePath\<close>.
\<close>

theorem subfolder_not_saved_counterexample:
  "(\<not> truthy (arg_value (arg_destinationPrefix
        (no_args\<lparr>arg_sourcePath := Some ''/srv/report.pdf''\<rparr>))) \<and>
    getSubfolder configured_disk = Inr None \<and>
    outcome (quiet_env\<lparr>write_fault := Some (OpenFails eacces)\<rparr>) configured_disk
      (deploy_call (no_args\<lparr>arg_sourcePath := Some ''/srv/report.pdf''\<rparr>)) =
      Inl (Thrown eacces) \<and>
    getSubfolder (disk_after (quiet_env\<lparr>write_fault := Some (OpenFails eacces)\<rparr>) configured_disk
      (deploy_call (no_args\<lparr>arg_sourcePath := Some ''/srv/report.pdf''\<rparr>))) = Inr None) \<and>
   (load \<lparr>dir_exists = True, cfg_file = Parses JNull\<rparr> = JNull \<and>
    callTool quiet_env \<lparr>dir_exists = True, cfg_file = Parses JNull\<rparr>
      (deploy_call (no_args\<lparr>arg_sourcePath := Some ''/srv/report.pdf''\<rparr>)) =
      (Inl (Thrown (null_property_error ''bucketName'')),
       \<lparr>dir_exists = True, cfg_file = Parses JNull\<rparr>, [])) \<and>
   callTool quiet_env empty_disk \<lparr>tool_name = ''deploy_to_gcs'', arguments = None\<rparr> =
     (Inl (Thrown (undefined_property_error ''sourcePath'')), empty_disk, [])"
  by (simp add: handler_defs config_defs fixture_defs)

section \<open>Upload Orchestrator and Auth-Recovery Controller: claims C2, C4 and C7\<close>

text \<open>
  Claim C2. The upload fails with status 401 and the login flow that is launched exits
  with 0. The \<^verbatim>\<open>throw\<close> of the constructed message stands inside the \<^verbatim>\<open>try\<close> whose \<^verbatim>\<open>catch\<close>
  builds the other message, so the call fails with the text for a login flow that could
  not be launched, wrapped around the constructed message and the original error.
\<close>

theorem login_success_reported_as_launch_failure:
  "callTool (quiet_env\<lparr>upload_fault := \<lambda>p dst. Some unauthorized\<rparr>) configured_disk
     (deploy_call (no_args\<lparr>arg_sourcePath := Some ''/srv/report.pdf'',
                            arg_destinationPrefix := Some ''docs''\<rparr>)) =
     (Inr \<lparr>resp_text =
             ''Error deploying to GCS: Authentication failed and could not launch gcloud: '' @
             auth_missing_message @ ''. Original error: Unauthorized'',
           isError = True\<rparr>,
      configured_disk,
      [identity_command,
       Upload ''/srv/report.pdf'' ''docs/report.pdf'' ''application/octet-stream'',
       login_command])"
  by (simp add: handler_defs config_defs upload_defs fixture_defs unauthorized_def Error_def)

text \<open>The same call when the login flow exits with 1: the other message of the claim.\<close>

lemma login_exit_one_message:
  "outcome (quiet_env\<lparr>upload_fault := \<lambda>p dst. Some unauthorized, login_flow := Closed (Some 1)\<rparr>)
     configured_disk
     (deploy_call (no_args\<lparr>arg_sourcePath := Some ''/srv/report.pdf'',
                            arg_destinationPrefix := Some ''docs''\<rparr>)) =
     Inr \<lparr>resp_text =
            ''Error deploying to GCS: Authentication failed and could not launch gcloud: '' @
            ''gcloud exited with code 1. Original error: Unauthorized'',
          isError = True\<rparr>"
  by code_simp






end
